theory Spec2Isabelle
  imports Main "HOL-Library.Word"
begin

unbundle bit_operations_syntax

section \<open>Memory and build configuration\<close>

text \<open>
  The header \<^verbatim>\<open>src/vm.h\<close> reads and writes raw bytes through \<^verbatim>\<open>void *\<close> pointers.
  Memory is a total map from addresses to bytes; an address is a natural number, so
  \<^verbatim>\<open>p + 3\<close> never wraps.
\<close>

type_synonym addr = nat
type_synonym memory = "addr \<Rightarrow> 8 word"

datatype endian = Little | Big

text \<open>
  A build is the set of preprocessor switches the header tests, the capacity
  \<^verbatim>\<open>MAX_REGS_SIZE\<close> it uses for the register file (both come from \<^verbatim>\<open>vm_config.h\<close>),
  and the byte order of the machine the compiled code runs on.
\<close>

record build =
  MRBC_LITTLE_ENDIAN :: bool
  MRBC_BIG_ENDIAN :: bool
  MRBC_REQUIRE_32BIT_ALIGNMENT :: bool
  MRBC_DEBUG :: bool
  MAX_REGS_SIZE :: nat
  host_endian :: endian

text \<open>
  The C expressions \<^verbatim>\<open>*((uint32_t *)s)\<close> and \<^verbatim>\<open>*((uint16_t *)s)\<close>: a native load,
  which assembles the bytes at \<open>s\<close> in the byte order of the host.
\<close>

definition load_uint32 :: "endian \<Rightarrow> memory \<Rightarrow> addr \<Rightarrow> 32 word" where
  "load_uint32 e m s =
     (case e of
        Little \<Rightarrow> ucast (m s) OR push_bit 8 (ucast (m (s + 1)))
                   OR push_bit 16 (ucast (m (s + 2))) OR push_bit 24 (ucast (m (s + 3)))
      | Big \<Rightarrow> push_bit 24 (ucast (m s)) OR push_bit 16 (ucast (m (s + 1)))
                   OR push_bit 8 (ucast (m (s + 2))) OR ucast (m (s + 3)))"

definition load_uint16 :: "endian \<Rightarrow> memory \<Rightarrow> addr \<Rightarrow> 16 word" where
  "load_uint16 e m s =
     (case e of
        Little \<Rightarrow> ucast (m s) OR push_bit 8 (ucast (m (s + 1)))
      | Big \<Rightarrow> push_bit 8 (ucast (m s)) OR ucast (m (s + 1)))"

section \<open>Binary decoder\<close>

text \<open>
  \<^verbatim>\<open>bin_to_uint32\<close>, with its \<^verbatim>\<open>#if / #elif / #else\<close> chain in the order of the source.
  The last branch is \<^verbatim>\<open>#error\<close>: no function exists in such a build, which is \<open>None\<close>.
\<close>

definition bin_to_uint32 :: "build \<Rightarrow> memory \<Rightarrow> addr \<Rightarrow> 32 word option" where
  "bin_to_uint32 b m s =
     (if MRBC_LITTLE_ENDIAN b \<and> \<not> MRBC_REQUIRE_32BIT_ALIGNMENT b then
        (let x = load_uint32 (host_endian b) m s
         in Some (push_bit 24 x OR push_bit 8 (x AND 0xff00)
                  OR (drop_bit 8 x AND 0xff00) OR drop_bit 24 x))
      else if MRBC_BIG_ENDIAN b \<and> \<not> MRBC_REQUIRE_32BIT_ALIGNMENT b then
        (let x = load_uint32 (host_endian b) m s in Some x)
      else if MRBC_REQUIRE_32BIT_ALIGNMENT b then
        (let p = s;
             x = (ucast (m p) :: 32 word); p = p + 1;
             x = push_bit 8 x;
             x = x OR ucast (m p); p = p + 1;
             x = push_bit 8 x;
             x = x OR ucast (m p); p = p + 1;
             x = push_bit 8 x;
             x = x OR ucast (m p)
         in Some x)
      else None)"

text \<open>
  \<^verbatim>\<open>bin_to_uint16\<close>. In the first branch \<open>x\<close> is promoted to \<^verbatim>\<open>int\<close> before the
  shifts and the result is converted back to \<^verbatim>\<open>uint16_t\<close> by the return. The source has
  no \<^verbatim>\<open>#else\<close> here: with no switch defined the body is empty and nothing is returned
  (and \<^verbatim>\<open>bin_to_uint32\<close> above stops the compilation), which is \<open>None\<close>.
\<close>

definition bin_to_uint16 :: "build \<Rightarrow> memory \<Rightarrow> addr \<Rightarrow> 16 word option" where
  "bin_to_uint16 b m s =
     (if MRBC_LITTLE_ENDIAN b \<and> \<not> MRBC_REQUIRE_32BIT_ALIGNMENT b then
        (let x = load_uint16 (host_endian b) m s
         in Some (ucast (push_bit 8 (ucast x :: 32 word) OR drop_bit 8 (ucast x :: 32 word))))
      else if MRBC_BIG_ENDIAN b \<and> \<not> MRBC_REQUIRE_32BIT_ALIGNMENT b then
        (let x = load_uint16 (host_endian b) m s in Some x)
      else if MRBC_REQUIRE_32BIT_ALIGNMENT b then
        (let p = s;
             x = (ucast (m p) :: 16 word); p = p + 1;
             x = push_bit 8 x;
             x = x OR ucast (m p)
         in Some x)
      else None)"

text \<open>\<^verbatim>\<open>uint32_to_bin\<close>: four stores, from \<open>d + 3\<close> down to \<open>d\<close>.\<close>

definition uint32_to_bin :: "32 word \<Rightarrow> addr \<Rightarrow> memory \<Rightarrow> memory" where
  "uint32_to_bin v d m =
     (let p = d + 3;
          m = m(p := ucast (0xff AND v)); p = p - 1;
          v = drop_bit 8 v;
          m = m(p := ucast (0xff AND v)); p = p - 1;
          v = drop_bit 8 v;
          m = m(p := ucast (0xff AND v)); p = p - 1;
          v = drop_bit 8 v;
          m = m(p := ucast (0xff AND v))
      in m)"

text \<open>\<^verbatim>\<open>uint16_to_bin\<close>: two stores, \<open>d\<close> then \<open>d + 1\<close>.\<close>

definition uint16_to_bin :: "16 word \<Rightarrow> addr \<Rightarrow> memory \<Rightarrow> memory" where
  "uint16_to_bin v d m =
     (let p = d;
          m = m(p := ucast (drop_bit 8 v)); p = p + 1;
          m = m(p := ucast (0xff AND v))
      in m)"

text \<open>
  A supported host configuration: the switches select a branch, and the byte-order
  switch that selects it tells the truth about the host. With
  \<^verbatim>\<open>MRBC_REQUIRE_32BIT_ALIGNMENT\<close> the byte order of the host does not matter.
\<close>

definition supported :: "build \<Rightarrow> bool" where
  "supported b =
     (if MRBC_REQUIRE_32BIT_ALIGNMENT b then True
      else if MRBC_LITTLE_ENDIAN b then host_endian b = Little
      else if MRBC_BIG_ENDIAN b then host_endian b = Big
      else False)"

text \<open>
  The big-endian reading of a byte sequence, as the specification words it:
  \<^verbatim>\<open>(b0<<24)|(b1<<16)|(b2<<8)|b3\<close> and \<^verbatim>\<open>(b0<<8)|b1\<close>.
\<close>

definition be32 :: "8 word \<Rightarrow> 8 word \<Rightarrow> 8 word \<Rightarrow> 8 word \<Rightarrow> 32 word" where
  "be32 b0 b1 b2 b3 =
     push_bit 24 (ucast b0) OR push_bit 16 (ucast b1) OR push_bit 8 (ucast b2) OR ucast b3"

definition be16 :: "8 word \<Rightarrow> 8 word \<Rightarrow> 16 word" where
  "be16 b0 b1 = push_bit 8 (ucast b0) OR ucast b1"

text \<open>Three builds, one for each branch of the decoder, and a memory to run them on.\<close>

definition le_build :: build where
  "le_build = \<lparr>MRBC_LITTLE_ENDIAN = True, MRBC_BIG_ENDIAN = False,
     MRBC_REQUIRE_32BIT_ALIGNMENT = False, MRBC_DEBUG = False,
     MAX_REGS_SIZE = 110, host_endian = Little\<rparr>"

definition be_build :: build where
  "be_build = \<lparr>MRBC_LITTLE_ENDIAN = False, MRBC_BIG_ENDIAN = True,
     MRBC_REQUIRE_32BIT_ALIGNMENT = False, MRBC_DEBUG = True,
     MAX_REGS_SIZE = 110, host_endian = Big\<rparr>"

definition aligned_build :: build where
  "aligned_build = \<lparr>MRBC_LITTLE_ENDIAN = True, MRBC_BIG_ENDIAN = False,
     MRBC_REQUIRE_32BIT_ALIGNMENT = True, MRBC_DEBUG = False,
     MAX_REGS_SIZE = 110, host_endian = Little\<rparr>"

definition count_memory :: memory where
  "count_memory = (\<lambda>a. of_nat a)"

section \<open>IREP\<close>

text \<open>
  \<^verbatim>\<open>struct IREP\<close>. The pointers \<^verbatim>\<open>code\<close>, \<^verbatim>\<open>mrb_pool\<close>, \<^verbatim>\<open>ptr_to_sym\<close> and \<^verbatim>\<open>reps\<close> are
  addresses; \<^verbatim>\<open>data\<close> is the address of the first byte of the flexible array member,
  where the table \<^verbatim>\<open>uint16_t tbl_pools[plen]\<close> starts. The two bytes \<^verbatim>\<open>type\<close> exist in
  the struct only under \<^verbatim>\<open>MRBC_DEBUG\<close>; no function of the header reads them.
\<close>

record mrbc_irep =
  type_dbg :: "8 word \<times> 8 word"
  nlocals :: "16 word"
  nregs :: "16 word"
  rlen :: "16 word"
  clen :: "16 word"
  ilen :: "16 word"
  plen :: "16 word"
  slen :: "16 word"
  code :: addr
  mrb_pool :: addr
  ptr_to_sym :: addr
  reps :: addr
  data :: addr

text \<open>
  The two accessor macros. \<^verbatim>\<open>mrbc_irep_tbl_pools(irep)\<close> casts \<^verbatim>\<open>data\<close> to
  \<^verbatim>\<open>uint16_t *\<close>; \<^verbatim>\<open>mrbc_irep_get_pools_ptr(irep, n)\<close> indexes that table with a native
  16-bit load at \<open>data + 2 * n\<close> and adds the entry to \<^verbatim>\<open>mrb_pool\<close>. Neither macro
  mentions \<^verbatim>\<open>plen\<close> or \<^verbatim>\<open>MRBC_DEBUG\<close>: an index past the table reads the bytes that
  follow it.
\<close>

definition mrbc_irep_tbl_pools :: "mrbc_irep \<Rightarrow> addr" where
  "mrbc_irep_tbl_pools irep = data irep"

definition mrbc_irep_get_pools_ptr :: "build \<Rightarrow> memory \<Rightarrow> mrbc_irep \<Rightarrow> nat \<Rightarrow> addr" where
  "mrbc_irep_get_pools_ptr b m irep n =
     mrb_pool irep + unat (load_uint16 (host_endian b) m (mrbc_irep_tbl_pools irep + 2 * n))"

text \<open>
  The accessor as the specification words it: the view at the 16-bit offset
  \<open>pool_offsets[n]\<close> from \<open>pool_base\<close>, refused in a debug build when \<open>n\<close> is not below
  \<open>plen\<close>.
\<close>

definition pool_entry_spec :: "build \<Rightarrow> memory \<Rightarrow> mrbc_irep \<Rightarrow> nat \<Rightarrow> addr option" where
  "pool_entry_spec b m irep n =
     (if MRBC_DEBUG b \<and> \<not> n < unat (plen irep) then None
      else Some (mrb_pool irep + unat (load_uint16 (host_endian b) m (data irep + 2 * n))))"

definition example_irep :: mrbc_irep where
  "example_irep = \<lparr>type_dbg = (0x49, 0x52), nlocals = 2, nregs = 5, rlen = 0, clen = 1,
     ilen = 12, plen = 2, slen = 1, code = 200, mrb_pool = 1000, ptr_to_sym = 300,
     reps = 0, data = 16\<rparr>"

section \<open>Catch handlers\<close>

text \<open>\<^verbatim>\<open>enum mrbc_catch_type\<close> with the values the source gives its members.\<close>

datatype mrbc_catch_type = MRB_CATCH_RESCUE | MRB_CATCH_ENSURE

fun catch_type_value :: "mrbc_catch_type \<Rightarrow> 8 word" where
  "catch_type_value MRB_CATCH_RESCUE = 0"
| "catch_type_value MRB_CATCH_ENSURE = 1"

text \<open>
  \<^verbatim>\<open>struct IREP_CATCH_HANDLER\<close>: one byte \<^verbatim>\<open>type\<close> and three arrays \<^verbatim>\<open>uint8_t[4]\<close>,
  \<^verbatim>\<open>begin\<close>, \<^verbatim>\<open>end\<close> and \<^verbatim>\<open>target\<close> (the field names carry a suffix here, since
  \<open>type\<close>, \<open>begin\<close> and \<open>end\<close> are reserved words). An array of four bytes is a
  quadruple, so that its size is part of the type.
\<close>

type_synonym uint8_4 = "8 word \<times> 8 word \<times> 8 word \<times> 8 word"

record mrbc_irep_catch_handler =
  type_h :: "8 word"
  begin_h :: uint8_4
  end_h :: uint8_4
  target_h :: uint8_4

text \<open>
  The object representation of the struct: its members in declaration order. Every
  member has type \<^verbatim>\<open>uint8_t\<close> or array of \<^verbatim>\<open>uint8_t\<close>, alignment 1, so there is no
  padding between or after them. A catch table is an array of such structs.
\<close>

fun uint8_4_bytes :: "uint8_4 \<Rightarrow> 8 word list" where
  "uint8_4_bytes (b0, b1, b2, b3) = [b0, b1, b2, b3]"

definition catch_handler_bytes :: "mrbc_irep_catch_handler \<Rightarrow> 8 word list" where
  "catch_handler_bytes h =
     type_h h # uint8_4_bytes (begin_h h) @ uint8_4_bytes (end_h h) @ uint8_4_bytes (target_h h)"

definition catch_table_bytes :: "mrbc_irep_catch_handler list \<Rightarrow> 8 word list" where
  "catch_table_bytes hs = concat (map catch_handler_bytes hs)"

text \<open>The offset a four-byte field holds, read as \<^verbatim>\<open>bin_to_uint32\<close> reads it.\<close>

fun uint8_4_value :: "uint8_4 \<Rightarrow> 32 word" where
  "uint8_4_value (b0, b1, b2, b3) = be32 b0 b1 b2 b3"

definition example_handler :: mrbc_irep_catch_handler where
  "example_handler = \<lparr>type_h = catch_type_value MRB_CATCH_ENSURE,
     begin_h = (0, 0, 0, 4), end_h = (0, 0, 0, 9), target_h = (0, 0, 1, 2)\<rparr>"

text \<open>
  The data invariant of a catch-table entry, as the specification gives it: the kind
  is \<open>RESCUE\<close> or \<open>ENSURE\<close>, and \<open>begin \<le> end\<close> for the offsets the two fields hold.
  The struct has plain bytes and cannot enforce it; a table is well formed when each of
  its entries satisfies it.
\<close>

definition valid_catch_handler :: "mrbc_irep_catch_handler \<Rightarrow> bool" where
  "valid_catch_handler h =
     ((type_h h = catch_type_value MRB_CATCH_RESCUE \<or> type_h h = catch_type_value MRB_CATCH_ENSURE)
      \<and> uint8_4_value (begin_h h) \<le> uint8_4_value (end_h h))"

text \<open>A byte sequence lies in memory from address \<open>a\<close> on.\<close>

definition stored_at :: "memory \<Rightarrow> addr \<Rightarrow> 8 word list \<Rightarrow> bool" where
  "stored_at m a bs = (map (\<lambda>i. m (a + i)) [0 ..< length bs] = bs)"

text \<open>
  A catch table of two handlers, an IREP that owns it (\<open>clen = 2\<close>), and a memory that
  holds the table at address 40.
\<close>

definition rescue_handler :: mrbc_irep_catch_handler where
  "rescue_handler = \<lparr>type_h = catch_type_value MRB_CATCH_RESCUE,
     begin_h = (0, 0, 0, 2), end_h = (0, 0, 0, 2), target_h = (0, 0, 0, 10)\<rparr>"

definition example_table :: "mrbc_irep_catch_handler list" where
  "example_table = [example_handler, rescue_handler]"

definition table_irep :: mrbc_irep where
  "table_irep = example_irep\<lparr>clen := 2\<rparr>"

definition table_memory :: memory where
  "table_memory =
     (\<lambda>a. if 40 \<le> a \<and> a < 66 then catch_table_bytes example_table ! (a - 40) else 0)"

section \<open>Call information and the virtual machine\<close>

text \<open>
  \<^verbatim>\<open>mrbc_sym\<close>, \<^verbatim>\<open>mrbc_class\<close> and \<^verbatim>\<open>mrbc_value\<close> are declared in \<^verbatim>\<open>value.h\<close> and
  \<^verbatim>\<open>class.h\<close>. A symbol is its number, a pointer to a class is an address, and the
  type of values is a parameter \<open>'v\<close>; a register slot is \<open>None\<close> when it holds no value.
  A pointer to an IREP is the IREP it points to (an IREP is never changed after it is
  loaded), and a pointer into the register file is an index into it.
\<close>

type_synonym mrbc_sym = nat

text \<open>
  \<^verbatim>\<open>struct CALLINFO\<close>. The link \<^verbatim>\<open>prev\<close> is the rest of the list the frame heads.
  \<^verbatim>\<open>reg_offset\<close> and \<^verbatim>\<open>n_args\<close> are \<^verbatim>\<open>uint8_t\<close>. The four members copied from the VM
  carry the suffix \<open>_ci\<close>, the VM below has members of the same names.
\<close>

record mrbc_callinfo =
  pc_irep_ci :: mrbc_irep
  inst_ci :: addr
  current_regs_ci :: nat
  target_class_ci :: addr
  own_class :: addr
  method_id :: mrbc_sym
  reg_offset :: "8 word"
  n_args :: "8 word"

text \<open>
  \<^verbatim>\<open>struct VM\<close>. \<^verbatim>\<open>callinfo_tail\<close> is the chain of frames, newest first, \<open>[]\<close> for
  \<^verbatim>\<open>NULL\<close>; \<^verbatim>\<open>regs\<close> has \<^verbatim>\<open>MAX_REGS_SIZE\<close> slots and \<^verbatim>\<open>catch_stack\<close> five.
\<close>

record 'v mrbc_vm =
  irep :: mrbc_irep
  vm_id :: "8 word"
  mrb :: addr
  pc_irep :: mrbc_irep
  inst :: addr
  regs :: "'v option list"
  current_regs :: nat
  callinfo_tail :: "mrbc_callinfo list"
  catch_stack_idx :: int
  catch_stack :: "addr list"
  target_class :: addr
  flag_debug_mode :: "8 word"
  exc :: addr
  exc_message :: "'v option"
  error_code :: "32 word"
  flag_preemption :: "8 word"
  flag_need_memfree :: "8 word"

datatype vm_error = STACK_OVERFLOW

text \<open>
  Modelled from the spec: \<^verbatim>\<open>mrbc_push_callinfo\<close>, of which \<^verbatim>\<open>src/vm.h\<close> has only the
  prototype \<^verbatim>\<open>(vm, method_id, reg_offset, n_args)\<close>. The specification: it snapshots the
  VM's current IREP, program counter, register base and target class into a new frame,
  links it at the head, and advances the VM's window; it fails with \<open>STACK_OVERFLOW\<close> if
  the depth exceeds the configured limit or if \<open>window_offset + callee.nregs > MAX_REGS\<close>.
  The configured limit \<open>max_depth\<close> and the callee's IREP are parameters. The arguments
  are C \<^verbatim>\<open>int\<close>s; storing them in the \<^verbatim>\<open>uint8_t\<close> members of the frame converts them
  modulo 256, as C does. The specification gives the new frame no \<^verbatim>\<open>own_class\<close>: it
  is the null pointer.
\<close>

definition mrbc_push_callinfo ::
  "build \<Rightarrow> nat \<Rightarrow> mrbc_irep \<Rightarrow> 'v mrbc_vm \<Rightarrow> mrbc_sym \<Rightarrow> int \<Rightarrow> int \<Rightarrow> vm_error + 'v mrbc_vm"
where
  "mrbc_push_callinfo b max_depth callee vm mid roff nargs =
     (if max_depth < length (callinfo_tail vm) + 1
         \<or> int (MAX_REGS_SIZE b) < roff + uint (nregs callee)
      then Inl STACK_OVERFLOW
      else
        (let callinfo = \<lparr>pc_irep_ci = pc_irep vm, inst_ci = inst vm,
               current_regs_ci = current_regs vm, target_class_ci = target_class vm,
               own_class = 0, method_id = mid,
               reg_offset = word_of_int roff, n_args = word_of_int nargs\<rparr>
         in Inr (vm\<lparr>callinfo_tail := callinfo # callinfo_tail vm,
                     current_regs := nat (int (current_regs vm) + roff)\<rparr>)))"

text \<open>
  Modelled from the spec: the clearing of a register window, which the specification
  gives as part of the pop (the registers in the callee window
  \<open>[register_base, register_base + irep.nregs)\<close> are cleared before the window
  retracts). A cleared slot holds no value; slots outside the window, and a part of
  the window past the end of the register file, are not touched.
\<close>

definition clear_window :: "'v option list \<Rightarrow> nat \<Rightarrow> nat \<Rightarrow> 'v option list" where
  "clear_window rs base n =
     map (\<lambda>(i, r). if base \<le> i \<and> i < base + n then None else r) (zip [0 ..< length rs] rs)"

text \<open>
  Modelled from the spec: \<^verbatim>\<open>mrbc_pop_callinfo\<close>, of which \<^verbatim>\<open>src/vm.h\<close> has only the
  prototype. The specification: it restores the snapshotted values, unlinks the head
  frame, and returns control to the caller's program counter, after the registers of
  the callee window are cleared. The specification does not say what a pop of an empty
  chain does: that is \<open>None\<close>.
\<close>

definition mrbc_pop_callinfo :: "'v mrbc_vm \<Rightarrow> 'v mrbc_vm option" where
  "mrbc_pop_callinfo vm =
     (case callinfo_tail vm of
        [] \<Rightarrow> None
      | callinfo # prev \<Rightarrow>
          Some (vm\<lparr>regs := clear_window (regs vm) (current_regs vm) (unat (nregs (pc_irep vm))),
                   callinfo_tail := prev,
                   current_regs := current_regs_ci callinfo,
                   pc_irep := pc_irep_ci callinfo,
                   inst := inst_ci callinfo,
                   target_class := target_class_ci callinfo\<rparr>))"

text \<open>
  Modelled from the spec: \<^verbatim>\<open>mrbc_get_callee_name\<close>, of which \<^verbatim>\<open>src/vm.h\<close> has only the
  prototype. The specification: the accessor reports the method id on the current
  call-info frame, or a synthetic \<open>(toplevel)\<close> when the chain is empty. The symbol
  table that turns a method id into its name is the parameter \<open>symid_to_str\<close>.
\<close>

definition mrbc_get_callee_name :: "(mrbc_sym \<Rightarrow> string) \<Rightarrow> 'v mrbc_vm \<Rightarrow> string" where
  "mrbc_get_callee_name symid_to_str vm =
     (case callinfo_tail vm of
        [] \<Rightarrow> ''(toplevel)''
      | callinfo # prev \<Rightarrow> symid_to_str (method_id callinfo))"

text \<open>A VM at top level, a build with a large register file, and a symbol table.\<close>

definition example_vm :: "nat mrbc_vm" where
  "example_vm = \<lparr>irep = example_irep, vm_id = 1, mrb = 64, pc_irep = example_irep,
     inst = 204, regs = [Some 7, Some 8, None, Some 9, None, None, None, None],
     current_regs = 1, callinfo_tail = [], catch_stack_idx = 0,
     catch_stack = [0, 0, 0, 0, 0], target_class = 500, flag_debug_mode = 0, exc = 0,
     exc_message = None, error_code = 0, flag_preemption = 0, flag_need_memfree = 0\<rparr>"

definition wide_build :: build where
  "wide_build = \<lparr>MRBC_LITTLE_ENDIAN = True, MRBC_BIG_ENDIAN = False,
     MRBC_REQUIRE_32BIT_ALIGNMENT = False, MRBC_DEBUG = False,
     MAX_REGS_SIZE = 1000, host_endian = Little\<rparr>"

definition example_names :: "mrbc_sym \<Rightarrow> string" where
  "example_names s = (if s = 3 then ''each'' else ''puts'')"

text \<open>The frame a push on the example VM links, and the VM after that push.\<close>

definition example_frame :: "int \<Rightarrow> int \<Rightarrow> mrbc_callinfo" where
  "example_frame roff nargs = \<lparr>pc_irep_ci = example_irep, inst_ci = 204, current_regs_ci = 1,
     target_class_ci = 500, own_class = 0, method_id = 3,
     reg_offset = word_of_int roff, n_args = word_of_int nargs\<rparr>"

definition pushed_vm :: "int \<Rightarrow> int \<Rightarrow> nat mrbc_vm" where
  "pushed_vm roff nargs =
     example_vm\<lparr>callinfo_tail := [example_frame roff nargs],
                current_regs := nat (1 + roff)\<rparr>"

section \<open>Bit-level facts about bytes and masks\<close>

lemma byte_bit_high: "8 \<le> n \<Longrightarrow> bit (b :: 8 word) n = False"
  using bit_imp_le_length [of b n] by auto

lemma bit_ff_int: "bit (0xff :: int) n \<longleftrightarrow> n < 8"
proof -
  have e: "(0xff :: int) = mask 8"
    by (simp add: mask_eq_exp_minus_1)
  have "bit (mask 8 :: int) n \<longleftrightarrow> n < 8"
    unfolding bit_mask_iff by auto
  then show ?thesis unfolding e .
qed

lemma bit_ff00_int: "bit (0xff00 :: int) n \<longleftrightarrow> 8 \<le> n \<and> n < 16"
proof -
  have e: "(0xff00 :: int) = push_bit 8 (mask 8)"
    by (simp add: mask_eq_exp_minus_1 push_bit_eq_mult)
  have "bit (push_bit 8 (mask 8 :: int)) n \<longleftrightarrow> 8 \<le> n \<and> n < 16"
    unfolding bit_push_bit_iff bit_mask_iff by auto
  then show ?thesis unfolding e .
qed

lemma bit_ff0000_int: "bit (0xff0000 :: int) n \<longleftrightarrow> 16 \<le> n \<and> n < 24"
proof -
  have e: "(0xff0000 :: int) = push_bit 16 (mask 8)"
    by (simp add: mask_eq_exp_minus_1 push_bit_eq_mult)
  have "bit (push_bit 16 (mask 8 :: int)) n \<longleftrightarrow> 16 \<le> n \<and> n < 24"
    unfolding bit_push_bit_iff bit_mask_iff by auto
  then show ?thesis unfolding e .
qed

lemma byte_lanes32:
  "n < 32 \<Longrightarrow> n < 8 \<or> (8 \<le> n \<and> n < 16) \<or> (16 \<le> n \<and> n < 24) \<or> (24 \<le> n \<and> n < 32)"
  for n :: nat
  by arith

lemma and_ff_32: "(ucast (0xff AND v :: 32 word) :: 8 word) = ucast v"
  by (rule bit_word_eqI) (simp add: bit_simps bit_ff_int)

lemma and_ff_16: "(ucast (0xff AND v :: 16 word) :: 8 word) = ucast v"
  by (rule bit_word_eqI) (simp add: bit_simps bit_ff_int)

text \<open>Cutting a word into its bytes, most significant first, and reading them back.\<close>

lemma be32_digits:
  "be32 (ucast (drop_bit 24 v)) (ucast (drop_bit 16 v)) (ucast (drop_bit 8 v)) (ucast v) = v"
  unfolding be32_def
  apply (rule bit_word_eqI)
  apply (simp add: bit_simps)
  apply (drule byte_lanes32)
  apply (elim disjE conjE)
     apply (simp_all add: less_diff_conv2)
  done

lemma be16_digits: "be16 (ucast (drop_bit 8 v)) (ucast v) = v"
  unfolding be16_def
proof (rule bit_word_eqI)
  fix n :: nat
  assume "n < LENGTH(16)"
  then have "n < 8 \<or> (8 \<le> n \<and> n < 16)" by auto
  then show "bit (push_bit 8 (ucast (ucast (drop_bit 8 v) :: 8 word)) OR ucast (ucast v :: 8 word) :: 16 word) n
           = bit v n"
    apply (simp add: bit_simps)
    apply (elim disjE conjE)
     apply (simp_all add: less_diff_conv2)
    done
qed

text \<open>The byte swap of the little-endian branch, on a little-endian load.\<close>

lemma swap32:
  fixes b0 b1 b2 b3 :: "8 word"
  defines "x \<equiv> (ucast b0 OR push_bit 8 (ucast b1) OR push_bit 16 (ucast b2)
                 OR push_bit 24 (ucast b3) :: 32 word)"
  shows "push_bit 24 x OR push_bit 8 (x AND 0xff00) OR (drop_bit 8 x AND 0xff00) OR drop_bit 24 x
         = be32 b0 b1 b2 b3"
  unfolding be32_def x_def
  apply (rule bit_word_eqI)
  apply (simp add: bit_simps bit_ff00_int bit_ff0000_int)
  apply (drule byte_lanes32)
  apply (elim disjE conjE)
     apply (simp_all add: byte_bit_high less_diff_conv2 bit_ff00_int bit_ff0000_int)
  done

lemma swap16:
  fixes b0 b1 :: "8 word"
  defines "x \<equiv> (ucast b0 OR push_bit 8 (ucast b1) :: 16 word)"
  shows "(ucast (push_bit 8 (ucast x :: 32 word) OR drop_bit 8 (ucast x :: 32 word)) :: 16 word)
         = be16 b0 b1"
  unfolding be16_def x_def
proof (rule bit_word_eqI)
  fix n :: nat
  assume "n < LENGTH(16)"
  then have "n < 8 \<or> (8 \<le> n \<and> n < 16)" by auto
  then show "bit (ucast (push_bit 8 (ucast (ucast b0 OR push_bit 8 (ucast b1) :: 16 word) :: 32 word)
         OR drop_bit 8 (ucast (ucast b0 OR push_bit 8 (ucast b1) :: 16 word) :: 32 word)) :: 16 word) n
       = bit (push_bit 8 (ucast b0) OR ucast b1 :: 16 word) n"
    apply (simp add: bit_simps)
    apply (elim disjE conjE)
     apply (simp_all add: byte_bit_high less_diff_conv2 le_diff_conv2)
    done
qed

section \<open>The decoder reads big-endian, the encoder writes big-endian\<close>

lemma uint32_to_bin_eq:
  "uint32_to_bin v d m =
     m(d + 3 := ucast v, d + 2 := ucast (drop_bit 8 v),
       d + 1 := ucast (drop_bit 16 v), d := ucast (drop_bit 24 v))"
  by (simp add: uint32_to_bin_def Let_def and_ff_32 drop_bit_drop_bit)

lemma uint16_to_bin_eq:
  "uint16_to_bin v d m = m(d := ucast (drop_bit 8 v), d + 1 := ucast v)"
  by (simp add: uint16_to_bin_def Let_def and_ff_16)

lemma bin_to_uint32_be:
  assumes "supported b"
  shows "bin_to_uint32 b m s = Some (be32 (m s) (m (s + 1)) (m (s + 2)) (m (s + 3)))"
proof (cases "MRBC_REQUIRE_32BIT_ALIGNMENT b")
  case True
  then show ?thesis
    by (simp add: bin_to_uint32_def Let_def be32_def numeral_3_eq_3 or.assoc)
next
  case na: False
  show ?thesis
  proof (cases "MRBC_LITTLE_ENDIAN b")
    case True
    with na assms have "host_endian b = Little" by (simp add: supported_def)
    with True na show ?thesis
      by (simp only: bin_to_uint32_def Let_def load_uint32_def endian.case
            simp_thms if_True swap32)
  next
    case False
    with na assms have "MRBC_BIG_ENDIAN b" "host_endian b = Big"
      by (simp_all add: supported_def split: if_splits)
    with False na show ?thesis
      by (simp add: bin_to_uint32_def Let_def load_uint32_def be32_def)
  qed
qed

lemma bin_to_uint16_be:
  assumes "supported b"
  shows "bin_to_uint16 b m s = Some (be16 (m s) (m (s + 1)))"
proof (cases "MRBC_REQUIRE_32BIT_ALIGNMENT b")
  case True
  then show ?thesis
    by (simp add: bin_to_uint16_def Let_def be16_def)
next
  case na: False
  show ?thesis
  proof (cases "MRBC_LITTLE_ENDIAN b")
    case True
    with na assms have "host_endian b = Little" by (simp add: supported_def)
    with True na show ?thesis
      by (simp only: bin_to_uint16_def Let_def load_uint16_def endian.case
            simp_thms if_True swap16)
  next
    case False
    with na assms have "MRBC_BIG_ENDIAN b" "host_endian b = Big"
      by (simp_all add: supported_def split: if_splits)
    with False na show ?thesis
      by (simp add: bin_to_uint16_def Let_def load_uint16_def be16_def)
  qed
qed

lemma supported_builds: "supported le_build" "supported be_build" "supported aligned_build"
  by (simp_all add: supported_def le_build_def be_build_def aligned_build_def)

text \<open>
  C1. Round trip of the binary decoder: on every supported host configuration,
  \<^verbatim>\<open>bin_to_uint32\<close> applied to the four bytes written by \<^verbatim>\<open>uint32_to_bin\<close> returns the
  value written, for every 32-bit value, every destination and every memory; and
  \<^verbatim>\<open>bin_to_uint16\<close> applied to the two bytes written by \<^verbatim>\<open>uint16_to_bin\<close> returns the
  16-bit value written.
\<close>

theorem bin_roundtrip:
  assumes "supported b"
  shows "bin_to_uint32 b (uint32_to_bin v d m) d = Some v
       \<and> bin_to_uint16 b (uint16_to_bin w d m) d = Some w"
  by (simp add: bin_to_uint32_be [OF assms] bin_to_uint16_be [OF assms]
        uint32_to_bin_eq uint16_to_bin_eq be32_digits be16_digits)

theorem bin_roundtrip_witness:
  "supported le_build
   \<and> bin_to_uint32 le_build (uint32_to_bin 0x12345678 100 count_memory) 100 = Some 0x12345678
   \<and> bin_to_uint16 le_build (uint16_to_bin 0xBEEF 100 count_memory) 100 = Some 0xBEEF
   \<and> supported be_build
   \<and> bin_to_uint32 be_build (uint32_to_bin 0xFFFFFFFF 7 count_memory) 7 = Some 0xFFFFFFFF
   \<and> supported aligned_build
   \<and> bin_to_uint16 aligned_build (uint16_to_bin 0x8001 3 count_memory) 3 = Some 0x8001"
  using bin_roundtrip [OF supported_builds(1), of "0x12345678" 100 count_memory "0xBEEF"]
    bin_roundtrip [OF supported_builds(2), of "0xFFFFFFFF" 7 count_memory 0]
    bin_roundtrip [OF supported_builds(3), of 0 3 count_memory "0x8001"]
    supported_builds
  by simp

text \<open>
  C2. All three conditional-compilation variants of \<^verbatim>\<open>bin_to_uint32\<close> (the byte swap
  of a little-endian load, the plain load of a big-endian host, the byte-at-a-time path)
  compute the same function of the four bytes at \<open>s\<close>: their big-endian reading
  \<^verbatim>\<open>(b0<<24)|(b1<<16)|(b2<<8)|b3\<close>. The variants of \<^verbatim>\<open>bin_to_uint16\<close> all return
  \<^verbatim>\<open>(b0<<8)|b1\<close>.
\<close>

theorem bin_to_uint_big_endian:
  assumes "supported b"
  shows "bin_to_uint32 b m s = Some (be32 (m s) (m (s + 1)) (m (s + 2)) (m (s + 3)))
       \<and> bin_to_uint16 b m s = Some (be16 (m s) (m (s + 1)))"
  using assms by (simp add: bin_to_uint32_be bin_to_uint16_be)

theorem bin_to_uint_big_endian_witness:
  "supported le_build \<and> supported be_build \<and> supported aligned_build
   \<and> bin_to_uint32 le_build count_memory 1 = Some 0x01020304
   \<and> bin_to_uint32 be_build count_memory 1 = Some 0x01020304
   \<and> bin_to_uint32 aligned_build count_memory 1 = Some 0x01020304
   \<and> bin_to_uint16 le_build count_memory 1 = Some 0x0102
   \<and> bin_to_uint16 be_build count_memory 1 = Some 0x0102
   \<and> bin_to_uint16 aligned_build count_memory 1 = Some 0x0102"
  using bin_to_uint_big_endian [OF supported_builds(1), of count_memory 1]
    bin_to_uint_big_endian [OF supported_builds(2), of count_memory 1]
    bin_to_uint_big_endian [OF supported_builds(3), of count_memory 1]
    supported_builds
  by (simp add: be32_def be16_def count_memory_def)

text \<open>
  C10. \<^verbatim>\<open>uint32_to_bin\<close> writes exactly the four bytes \<open>d .. d + 3\<close>, the big-endian
  digits of \<open>v\<close>, and \<^verbatim>\<open>uint16_to_bin\<close> exactly the two bytes \<open>d, d + 1\<close>: every other
  address keeps its content, and the memory after the call does not depend on what the
  destination bytes held before.
\<close>

theorem uint_to_bin_frame:
  "(\<forall>a. a < d \<or> d + 3 < a \<longrightarrow> uint32_to_bin v d m a = m a)
   \<and> uint32_to_bin v d m d = ucast (drop_bit 24 v)
   \<and> uint32_to_bin v d m (d + 1) = ucast (drop_bit 16 v)
   \<and> uint32_to_bin v d m (d + 2) = ucast (drop_bit 8 v)
   \<and> uint32_to_bin v d m (d + 3) = ucast v
   \<and> (\<forall>m'. (\<forall>a. a < d \<or> d + 3 < a \<longrightarrow> m' a = m a)
          \<longrightarrow> uint32_to_bin v d m' = uint32_to_bin v d m)
   \<and> (\<forall>a. a < d \<or> d + 1 < a \<longrightarrow> uint16_to_bin w d m a = m a)
   \<and> uint16_to_bin w d m d = ucast (drop_bit 8 w)
   \<and> uint16_to_bin w d m (d + 1) = ucast w
   \<and> (\<forall>m'. (\<forall>a. a < d \<or> d + 1 < a \<longrightarrow> m' a = m a)
          \<longrightarrow> uint16_to_bin w d m' = uint16_to_bin w d m)"
proof -
  have frame32: "\<forall>a. a < d \<or> d + 3 < a \<longrightarrow> uint32_to_bin v d m a = m a"
    by (auto simp add: uint32_to_bin_eq)
  have frame16: "\<forall>a. a < d \<or> d + 1 < a \<longrightarrow> uint16_to_bin w d m a = m a"
    by (auto simp add: uint16_to_bin_eq)
  have indep32: "uint32_to_bin v d m' = uint32_to_bin v d m"
    if "\<forall>a. a < d \<or> d + 3 < a \<longrightarrow> m' a = m a" for m'
  proof
    fix a
    from that show "uint32_to_bin v d m' a = uint32_to_bin v d m a"
      by (cases "a < d \<or> d + 3 < a") (auto simp add: uint32_to_bin_eq)
  qed
  have indep16: "uint16_to_bin w d m' = uint16_to_bin w d m"
    if "\<forall>a. a < d \<or> d + 1 < a \<longrightarrow> m' a = m a" for m'
  proof
    fix a
    from that show "uint16_to_bin w d m' a = uint16_to_bin w d m a"
      by (cases "a < d \<or> d + 1 < a") (auto simp add: uint16_to_bin_eq)
  qed
  have digits: "uint32_to_bin v d m d = ucast (drop_bit 24 v)"
    "uint32_to_bin v d m (d + 1) = ucast (drop_bit 16 v)"
    "uint32_to_bin v d m (d + 2) = ucast (drop_bit 8 v)"
    "uint32_to_bin v d m (d + 3) = ucast v"
    "uint16_to_bin w d m d = ucast (drop_bit 8 w)"
    "uint16_to_bin w d m (d + 1) = ucast w"
    by (simp_all add: uint32_to_bin_eq uint16_to_bin_eq)
  from frame32 frame16 indep32 indep16 digits show ?thesis by blast
qed

theorem uint_to_bin_frame_witness:
  "uint32_to_bin 0x11223344 4 count_memory 3 = 3
   \<and> uint32_to_bin 0x11223344 4 count_memory 4 = 0x11
   \<and> uint32_to_bin 0x11223344 4 count_memory 5 = 0x22
   \<and> uint32_to_bin 0x11223344 4 count_memory 6 = 0x33
   \<and> uint32_to_bin 0x11223344 4 count_memory 7 = 0x44
   \<and> uint32_to_bin 0x11223344 4 count_memory 8 = 8
   \<and> uint16_to_bin 0xBEEF 4 count_memory 3 = 3
   \<and> uint16_to_bin 0xBEEF 4 count_memory 4 = 0xBE
   \<and> uint16_to_bin 0xBEEF 4 count_memory 5 = 0xEF
   \<and> uint16_to_bin 0xBEEF 4 count_memory 6 = 6"
proof -
  note t = uint_to_bin_frame [of 4 "0x11223344" count_memory "0xBEEF"]
  note t1 = t [THEN conjunct2]
  note t2 = t1 [THEN conjunct2]
  note t3 = t2 [THEN conjunct2]
  note t4 = t3 [THEN conjunct2]
  note t6 = t4 [THEN conjunct2, THEN conjunct2]
  note t7 = t6 [THEN conjunct2]
  note t8 = t7 [THEN conjunct2]
  note outside32 = t [THEN conjunct1, rule_format]
  note outside16 = t6 [THEN conjunct1, rule_format]
  have "uint32_to_bin 0x11223344 4 count_memory 3 = 3"
    using outside32 [of 3] by (simp add: count_memory_def)
  moreover have "uint32_to_bin 0x11223344 4 count_memory 8 = 8"
    using outside32 [of 8] by (simp add: count_memory_def)
  moreover have "uint16_to_bin 0xBEEF 4 count_memory 3 = 3"
    using outside16 [of 3] by (simp add: count_memory_def)
  moreover have "uint16_to_bin 0xBEEF 4 count_memory 6 = 6"
    using outside16 [of 6] by (simp add: count_memory_def)
  moreover have "uint32_to_bin 0x11223344 4 count_memory 4 = 0x11"
    using t1 [THEN conjunct1] by simp
  moreover have "uint32_to_bin 0x11223344 4 count_memory 5 = 0x22"
    using t2 [THEN conjunct1] by simp
  moreover have "uint32_to_bin 0x11223344 4 count_memory 6 = 0x33"
    using t3 [THEN conjunct1] by simp
  moreover have "uint32_to_bin 0x11223344 4 count_memory 7 = 0x44"
    using t4 [THEN conjunct1] by simp
  moreover have "uint16_to_bin 0xBEEF 4 count_memory 4 = 0xBE"
    using t7 [THEN conjunct1] by simp
  moreover have "uint16_to_bin 0xBEEF 4 count_memory 5 = 0xEF"
    using t8 [THEN conjunct1] by simp
  ultimately show ?thesis by blast
qed

section \<open>Catch table layout, pool access and call information\<close>

lemma length_catch_handler_bytes: "length (catch_handler_bytes h) = 13"
  by (cases "begin_h h"; cases "end_h h"; cases "target_h h") (simp add: catch_handler_bytes_def)

lemma length_catch_table_bytes: "length (catch_table_bytes hs) = length hs * 13"
  by (induction hs) (simp_all add: catch_table_bytes_def length_catch_handler_bytes)

lemma stored_at_nth: "stored_at m a bs \<Longrightarrow> i < length bs \<Longrightarrow> m (a + i) = bs ! i"
proof -
  assume s: "stored_at m a bs" and i: "i < length bs"
  from i have "map (\<lambda>i. m (a + i)) [0 ..< length bs] ! i = m (a + i)" by simp
  with s show ?thesis by (simp add: stored_at_def)
qed

lemma handler_fields_in_memory:
  assumes "stored_at m a (catch_handler_bytes h)"
  shows "m a = type_h h"
    and "be32 (m (a + 1)) (m (a + 2)) (m (a + 3)) (m (a + 4)) = uint8_4_value (begin_h h)"
    and "be32 (m (a + 5)) (m (a + 6)) (m (a + 7)) (m (a + 8)) = uint8_4_value (end_h h)"
    and "be32 (m (a + 9)) (m (a + 10)) (m (a + 11)) (m (a + 12)) = uint8_4_value (target_h h)"
proof -
  obtain x0 x1 x2 x3 where x: "begin_h h = (x0, x1, x2, x3)" by (cases "begin_h h")
  obtain y0 y1 y2 y3 where y: "end_h h = (y0, y1, y2, y3)" by (cases "end_h h")
  obtain z0 z1 z2 z3 where z: "target_h h = (z0, z1, z2, z3)" by (cases "target_h h")
  have bs: "catch_handler_bytes h = [type_h h, x0, x1, x2, x3, y0, y1, y2, y3, z0, z1, z2, z3]"
    by (simp add: catch_handler_bytes_def x y z)
  have n: "m (a + i) = [type_h h, x0, x1, x2, x3, y0, y1, y2, y3, z0, z1, z2, z3] ! i"
    if "i < 13" for i
    using stored_at_nth [OF assms, of i] that by (simp add: bs)
  from n [of 0] show "m a = type_h h" by simp
  from n [of 1] n [of 2] n [of 3] n [of 4]
  show "be32 (m (a + 1)) (m (a + 2)) (m (a + 3)) (m (a + 4)) = uint8_4_value (begin_h h)"
    by (simp add: x)
  from n [of 5] n [of 6] n [of 7] n [of 8]
  show "be32 (m (a + 5)) (m (a + 6)) (m (a + 7)) (m (a + 8)) = uint8_4_value (end_h h)"
    by (simp add: y)
  from n [of 9] n [of 10] n [of 11] n [of 12]
  show "be32 (m (a + 9)) (m (a + 10)) (m (a + 11)) (m (a + 12)) = uint8_4_value (target_h h)"
    by (simp add: z)
qed

lemma stored_at_iff: "stored_at m a bs \<longleftrightarrow> (\<forall>i<length bs. m (a + i) = bs ! i)"
proof
  assume "stored_at m a bs"
  then show "\<forall>i<length bs. m (a + i) = bs ! i"
    using stored_at_nth [of m a bs] by blast
next
  assume e: "\<forall>i<length bs. m (a + i) = bs ! i"
  have "map (\<lambda>i. m (a + i)) [0 ..< length bs] = bs"
  proof (rule nth_equalityI)
    show "length (map (\<lambda>i. m (a + i)) [0 ..< length bs]) = length bs" by simp
  next
    fix i assume "i < length (map (\<lambda>i. m (a + i)) [0 ..< length bs])"
    then have "i < length bs" by simp
    with e show "map (\<lambda>i. m (a + i)) [0 ..< length bs] ! i = bs ! i" by simp
  qed
  then show "stored_at m a bs" by (simp add: stored_at_def)
qed

lemma stored_at_append:
  "stored_at m a (xs @ ys) \<longleftrightarrow> stored_at m a xs \<and> stored_at m (a + length xs) ys"
proof
  assume "stored_at m a (xs @ ys)"
  then have s: "m (a + i) = (xs @ ys) ! i" if "i < length xs + length ys" for i
    using that by (simp add: stored_at_iff)
  have "m (a + i) = xs ! i" if "i < length xs" for i
    using s [of i] that by (simp add: nth_append)
  moreover have "m (a + length xs + i) = ys ! i" if "i < length ys" for i
  proof -
    have "a + length xs + i = a + (length xs + i)" by simp
    with s [of "length xs + i"] that show ?thesis by (simp only: nth_append_length_plus)
  qed
  ultimately show "stored_at m a xs \<and> stored_at m (a + length xs) ys"
    by (simp add: stored_at_iff)
next
  assume s: "stored_at m a xs \<and> stored_at m (a + length xs) ys"
  show "stored_at m a (xs @ ys)"
    unfolding stored_at_iff
  proof (intro allI impI)
    fix i assume i: "i < length (xs @ ys)"
    show "m (a + i) = (xs @ ys) ! i"
    proof (cases "i < length xs")
      case True
      with s show ?thesis by (simp add: stored_at_iff nth_append)
    next
      case False
      with i have "i - length xs < length ys" by simp
      with s have "m (a + length xs + (i - length xs)) = ys ! (i - length xs)"
        by (simp add: stored_at_iff)
      with False show ?thesis by (simp add: nth_append)
    qed
  qed
qed

lemma stored_table_entry:
  "stored_at m a (catch_table_bytes hs) \<Longrightarrow> k < length hs
   \<Longrightarrow> stored_at m (a + 13 * k) (catch_handler_bytes (hs ! k))"
proof (induction hs arbitrary: a k)
  case Nil
  then show ?case by simp
next
  case (Cons h hs)
  from Cons.prems(1)
  have s: "stored_at m a (catch_handler_bytes h)"
    "stored_at m (a + 13) (catch_table_bytes hs)"
    by (simp_all add: catch_table_bytes_def stored_at_append length_catch_handler_bytes)
  show ?case
  proof (cases k)
    case 0
    with s show ?thesis by simp
  next
    case (Suc j)
    with Cons.prems(2) have "j < length hs" by simp
    from Cons.IH [OF s(2) this] Suc show ?thesis by (simp add: add.assoc)
  qed
qed

lemma example_table_valid:
  "valid_catch_handler example_handler" "valid_catch_handler rescue_handler"
  by (simp_all add: valid_catch_handler_def example_handler_def rescue_handler_def be32_def)

lemma example_table_length: "length example_table = unat (clen table_irep)"
  by (simp add: example_table_def table_irep_def)

lemma table_memory_stored: "stored_at table_memory 40 (catch_table_bytes example_table)"
  by (simp add: stored_at_def table_memory_def catch_table_bytes_def catch_handler_bytes_def
        example_table_def example_handler_def rescue_handler_def upt_rec)

text \<open>
  C3, as stated, fails. The claim: every handler record is 9 bytes and the catch table
  of an IREP occupies \<open>clen * 9\<close> bytes. The record of the source has one byte and three
  arrays of four. On a well-formed table of two handlers, owned by an IREP with
  \<open>clen = 2\<close>, the table is not \<open>clen * 9\<close> bytes long and a handler is not 9.
\<close>

theorem catch_table_not_9_bytes:
  "valid_catch_handler example_handler \<and> valid_catch_handler rescue_handler
   \<and> length example_table = unat (clen table_irep)
   \<and> length (catch_table_bytes example_table) \<noteq> unat (clen table_irep) * 9
   \<and> length (catch_handler_bytes example_handler) \<noteq> 9"
  using example_table_valid example_table_length
  by (simp add: length_catch_table_bytes length_catch_handler_bytes example_table_def
        table_irep_def)

text \<open>
  C3, amended in the size only: 13 for 9. Each catch-table entry of an IREP is a record
  of a kind in \<open>{RESCUE, ENSURE}\<close> and of \<open>begin\<close>, \<open>end\<close> and \<open>target\<close> with
  \<open>begin \<le> end\<close>; every handler record is 13 bytes, and the catch table occupies
  exactly \<open>clen * 13\<close> bytes. For a well-formed table of \<open>clen\<close> entries that lies in
  memory at \<open>a\<close>, on every supported host configuration, entry \<open>k < clen\<close> starts at
  \<open>a + 13 * k\<close>: the byte there is its kind, \<open>RESCUE\<close> or \<open>ENSURE\<close>, and
  \<^verbatim>\<open>bin_to_uint32\<close> at the offsets 1, 5 and 9 of the entry returns \<open>begin\<close>, \<open>end\<close>
  and \<open>target\<close>, with \<open>begin \<le> end\<close>.
\<close>

theorem catch_table_layout:
  assumes sup: "supported b"
    and len: "length hs = unat (clen ir)"
    and wf: "\<forall>h \<in> set hs. valid_catch_handler h"
    and st: "stored_at m a (catch_table_bytes hs)"
  shows "length (catch_handler_bytes h) = 13
     \<and> length (catch_table_bytes hs) = unat (clen ir) * 13
     \<and> (\<forall>k < unat (clen ir).
          length (catch_handler_bytes (hs ! k)) = 13
          \<and> m (a + 13 * k) = type_h (hs ! k)
          \<and> (m (a + 13 * k) = catch_type_value MRB_CATCH_RESCUE
               \<or> m (a + 13 * k) = catch_type_value MRB_CATCH_ENSURE)
          \<and> bin_to_uint32 b m (a + 13 * k + 1) = Some (uint8_4_value (begin_h (hs ! k)))
          \<and> bin_to_uint32 b m (a + 13 * k + 5) = Some (uint8_4_value (end_h (hs ! k)))
          \<and> bin_to_uint32 b m (a + 13 * k + 9) = Some (uint8_4_value (target_h (hs ! k)))
          \<and> uint8_4_value (begin_h (hs ! k)) \<le> uint8_4_value (end_h (hs ! k)))"
proof -
  have entry: "length (catch_handler_bytes (hs ! k)) = 13
          \<and> m (a + 13 * k) = type_h (hs ! k)
          \<and> (m (a + 13 * k) = catch_type_value MRB_CATCH_RESCUE
               \<or> m (a + 13 * k) = catch_type_value MRB_CATCH_ENSURE)
          \<and> bin_to_uint32 b m (a + 13 * k + 1) = Some (uint8_4_value (begin_h (hs ! k)))
          \<and> bin_to_uint32 b m (a + 13 * k + 5) = Some (uint8_4_value (end_h (hs ! k)))
          \<and> bin_to_uint32 b m (a + 13 * k + 9) = Some (uint8_4_value (target_h (hs ! k)))
          \<and> uint8_4_value (begin_h (hs ! k)) \<le> uint8_4_value (end_h (hs ! k))"
    if k: "k < unat (clen ir)" for k
  proof -
    define c where "c = a + 13 * k"
    define g where "g = hs ! k"
    from k len have kl: "k < length hs" by simp
    then have "g \<in> set hs" by (simp add: g_def)
    with wf have v: "valid_catch_handler g" by blast
    from stored_table_entry [OF st kl] have sg: "stored_at m c (catch_handler_bytes g)"
      by (simp add: c_def g_def)
    have e: "c + 1 + 1 = c + 2" "c + 1 + 2 = c + 3" "c + 1 + 3 = c + 4"
      "c + 5 + 1 = c + 6" "c + 5 + 2 = c + 7" "c + 5 + 3 = c + 8"
      "c + 9 + 1 = c + 10" "c + 9 + 2 = c + 11" "c + 9 + 3 = c + 12"
      by simp_all
    note f = handler_fields_in_memory [OF sg]
    have "bin_to_uint32 b m (c + 1) = Some (uint8_4_value (begin_h g))"
      using bin_to_uint32_be [OF sup, of m "c + 1"] by (simp only: e f)
    moreover have "bin_to_uint32 b m (c + 5) = Some (uint8_4_value (end_h g))"
      using bin_to_uint32_be [OF sup, of m "c + 5"] by (simp only: e f)
    moreover have "bin_to_uint32 b m (c + 9) = Some (uint8_4_value (target_h g))"
      using bin_to_uint32_be [OF sup, of m "c + 9"] by (simp only: e f)
    moreover from v f(1)
    have "m c = catch_type_value MRB_CATCH_RESCUE \<or> m c = catch_type_value MRB_CATCH_ENSURE"
      by (simp only: valid_catch_handler_def)
    moreover from v have "uint8_4_value (begin_h g) \<le> uint8_4_value (end_h g)"
      by (simp only: valid_catch_handler_def)
    moreover have "length (catch_handler_bytes g) = 13"
      by (rule length_catch_handler_bytes)
    ultimately show ?thesis
      using f(1) unfolding c_def g_def by blast
  qed
  have "length (catch_table_bytes hs) = unat (clen ir) * 13"
    using length_catch_table_bytes [of hs] len by simp
  with entry length_catch_handler_bytes [of h] show ?thesis by blast
qed

theorem catch_table_layout_witness:
  "supported le_build \<and> length example_table = unat (clen table_irep)
   \<and> valid_catch_handler example_handler \<and> valid_catch_handler rescue_handler
   \<and> stored_at table_memory 40 (catch_table_bytes example_table)
   \<and> length (catch_table_bytes example_table) = 26
   \<and> table_memory 40 = catch_type_value MRB_CATCH_ENSURE
   \<and> bin_to_uint32 le_build table_memory 41 = Some 4
   \<and> bin_to_uint32 le_build table_memory 45 = Some 9
   \<and> bin_to_uint32 le_build table_memory 49 = Some 258
   \<and> table_memory 53 = catch_type_value MRB_CATCH_RESCUE
   \<and> bin_to_uint32 le_build table_memory 54 = Some 2
   \<and> bin_to_uint32 le_build table_memory 58 = Some 2
   \<and> bin_to_uint32 le_build table_memory 62 = Some 10"
proof -
  have wf: "\<forall>h \<in> set example_table. valid_catch_handler h"
    using example_table_valid by (simp add: example_table_def)
  note t = catch_table_layout [OF supported_builds(1) example_table_length wf
      table_memory_stored, of example_handler]
  have c: "unat (clen table_irep) = 2" by (simp add: table_irep_def)
  from t c have "length (catch_table_bytes example_table) = 26" by simp
  moreover
  from t [THEN conjunct2, THEN conjunct2, rule_format, of 0] c
  have "table_memory 40 = catch_type_value MRB_CATCH_ENSURE
   \<and> bin_to_uint32 le_build table_memory 41 = Some 4
   \<and> bin_to_uint32 le_build table_memory 45 = Some 9
   \<and> bin_to_uint32 le_build table_memory 49 = Some 258"
    by (simp add: example_table_def example_handler_def be32_def)
  moreover
  from t [THEN conjunct2, THEN conjunct2, rule_format, of 1] c
  have "table_memory 53 = catch_type_value MRB_CATCH_RESCUE
   \<and> bin_to_uint32 le_build table_memory 54 = Some 2
   \<and> bin_to_uint32 le_build table_memory 58 = Some 2
   \<and> bin_to_uint32 le_build table_memory 62 = Some 10"
    by (simp add: example_table_def rescue_handler_def be32_def)
  ultimately show ?thesis
    using supported_builds(1) example_table_length example_table_valid table_memory_stored
    by blast
qed

text \<open>
  C4, as stated, fails. The claim: in a debug build the access is bounds-checked
  against \<open>plen\<close>. In a build with \<^verbatim>\<open>MRBC_DEBUG\<close>, on an IREP with two pool entries,
  the accessor worded by the specification refuses index 5, and the macro of the
  source returns an address computed from the bytes that follow the table.
\<close>

theorem pool_entry_debug_unchecked:
  "MRBC_DEBUG be_build \<and> \<not> 5 < unat (plen example_irep)
   \<and> pool_entry_spec be_build count_memory example_irep 5 = None
   \<and> mrbc_irep_get_pools_ptr be_build count_memory example_irep 5 = 7683"
  by (simp add: pool_entry_spec_def mrbc_irep_get_pools_ptr_def mrbc_irep_tbl_pools_def
        load_uint16_def be_build_def example_irep_def count_memory_def)

text \<open>
  C4, amended. \<^verbatim>\<open>mrbc_irep_get_pools_ptr(irep, n)\<close> returns the address at the 16-bit
  offset \<open>tbl_pools[n]\<close> from \<^verbatim>\<open>mrb_pool\<close>, where \<open>tbl_pools\<close> is the table of native
  16-bit numbers at \<^verbatim>\<open>data\<close>: the result lies in \<open>[mrb_pool, mrb_pool + 2^16)\<close>. The
  access is not bounds-checked in any build: the result depends neither on
  \<^verbatim>\<open>MRBC_DEBUG\<close> nor on \<open>plen\<close>, so \<open>n < plen\<close> is a precondition in debug and release
  builds alike. It agrees with the accessor the specification describes for every
  \<open>n < plen\<close>, and in a release build for every \<open>n\<close>.
\<close>

theorem pool_entry_unchecked:
  "mrbc_irep_get_pools_ptr b m ir n
     = mrb_pool ir + unat (load_uint16 (host_endian b) m (data ir + 2 * n))
   \<and> mrb_pool ir \<le> mrbc_irep_get_pools_ptr b m ir n
   \<and> mrbc_irep_get_pools_ptr b m ir n < mrb_pool ir + 2 ^ 16
   \<and> mrbc_irep_get_pools_ptr (b\<lparr>MRBC_DEBUG := dbg\<rparr>) m ir n
       = mrbc_irep_get_pools_ptr b m ir n
   \<and> mrbc_irep_get_pools_ptr b m (ir\<lparr>plen := k\<rparr>) n = mrbc_irep_get_pools_ptr b m ir n
   \<and> (n < unat (plen ir) \<or> \<not> MRBC_DEBUG b \<longrightarrow>
        pool_entry_spec b m ir n = Some (mrbc_irep_get_pools_ptr b m ir n))"
proof -
  have "unat (load_uint16 (host_endian b) m (data ir + 2 * n)) < 2 ^ 16"
    using unsigned_less [of "load_uint16 (host_endian b) m (data ir + 2 * n)"] by simp
  then show ?thesis
    by (auto simp add: mrbc_irep_get_pools_ptr_def mrbc_irep_tbl_pools_def pool_entry_spec_def)
qed

theorem pool_entry_unchecked_witness:
  "mrbc_irep_get_pools_ptr le_build count_memory example_irep 1 = 5882
   \<and> mrbc_irep_get_pools_ptr (le_build\<lparr>MRBC_DEBUG := True\<rparr>) count_memory example_irep 1 = 5882
   \<and> 1 < unat (plen example_irep)
   \<and> pool_entry_spec le_build count_memory example_irep 1 = Some 5882
   \<and> \<not> MRBC_DEBUG le_build
   \<and> pool_entry_spec le_build count_memory example_irep 5
       = Some (mrbc_irep_get_pools_ptr le_build count_memory example_irep 5)"
proof -
  note t = pool_entry_unchecked [of le_build count_memory example_irep 1 True 0]
  note u = pool_entry_unchecked [of le_build count_memory example_irep 5 True 0]
  have v: "mrbc_irep_get_pools_ptr le_build count_memory example_irep 1 = 5882"
    using t [THEN conjunct1]
    by (simp add: load_uint16_def le_build_def example_irep_def count_memory_def)
  have p: "1 < unat (plen example_irep)" "\<not> MRBC_DEBUG le_build"
    by (simp_all add: example_irep_def le_build_def)
  from t v p u show ?thesis by simp
qed


lemma example_push:
  "mrbc_push_callinfo le_build 10 example_irep example_vm 3 3 2 = Inr (pushed_vm 3 2)"
  by (simp add: mrbc_push_callinfo_def pushed_vm_def example_frame_def example_vm_def
        le_build_def example_irep_def)

lemma example_push_wide:
  "mrbc_push_callinfo wide_build 10 example_irep example_vm 3 300 257 = Inr (pushed_vm 300 257)"
  by (simp add: mrbc_push_callinfo_def pushed_vm_def example_frame_def example_vm_def
        wide_build_def example_irep_def)

text \<open>
  C5. For every call, \<^verbatim>\<open>mrbc_push_callinfo\<close> fails with \<open>STACK_OVERFLOW\<close> if the depth
  of the call-info chain would exceed the configured maximum or if
  \<open>window_offset + callee.nregs > MAX_REGS\<close>; otherwise it succeeds, links at the head
  a new frame that holds the VM's current IREP, program counter, register base and
  target class, and advances the VM's register window by the offset.
\<close>

theorem push_callinfo_result:
  "(max_depth < length (callinfo_tail vm) + 1
      \<or> int (MAX_REGS_SIZE b) < roff + uint (nregs callee)
     \<longrightarrow> mrbc_push_callinfo b max_depth callee vm mid roff nargs = Inl STACK_OVERFLOW)
   \<and> (\<not> (max_depth < length (callinfo_tail vm) + 1
          \<or> int (MAX_REGS_SIZE b) < roff + uint (nregs callee))
     \<longrightarrow> (\<exists>vm' ci. mrbc_push_callinfo b max_depth callee vm mid roff nargs = Inr vm'
            \<and> callinfo_tail vm' = ci # callinfo_tail vm
            \<and> pc_irep_ci ci = pc_irep vm \<and> inst_ci ci = inst vm
            \<and> current_regs_ci ci = current_regs vm
            \<and> target_class_ci ci = target_class vm
            \<and> method_id ci = mid
            \<and> int (current_regs vm') = max 0 (int (current_regs vm) + roff)
            \<and> regs vm' = regs vm \<and> pc_irep vm' = pc_irep vm \<and> inst vm' = inst vm
            \<and> target_class vm' = target_class vm))"
  by (simp add: mrbc_push_callinfo_def Let_def)

theorem push_callinfo_result_witness:
  "mrbc_push_callinfo le_build 0 example_irep example_vm 3 3 2 = Inl STACK_OVERFLOW
   \<and> mrbc_push_callinfo le_build 10 example_irep example_vm 3 106 2 = Inl STACK_OVERFLOW
   \<and> (\<exists>vm' ci. mrbc_push_callinfo le_build 10 example_irep example_vm 3 105 2 = Inr vm'
        \<and> callinfo_tail vm' = [ci] \<and> method_id ci = 3 \<and> current_regs_ci ci = 1
        \<and> current_regs vm' = 106)"
proof -
  have "mrbc_push_callinfo le_build 0 example_irep example_vm 3 3 2 = Inl STACK_OVERFLOW"
    using push_callinfo_result [of 0 example_vm le_build 3 example_irep 3 2]
    by (simp add: example_vm_def)
  moreover
  have "mrbc_push_callinfo le_build 10 example_irep example_vm 3 106 2 = Inl STACK_OVERFLOW"
    using push_callinfo_result [of 10 example_vm le_build 106 example_irep 3 2]
    by (simp add: example_vm_def le_build_def example_irep_def)
  moreover
  have "\<exists>vm' ci. mrbc_push_callinfo le_build 10 example_irep example_vm 3 105 2 = Inr vm'
        \<and> callinfo_tail vm' = [ci] \<and> method_id ci = 3 \<and> current_regs_ci ci = 1
        \<and> current_regs vm' = 106"
  proof -
    have pre: "\<not> (10 < length (callinfo_tail example_vm) + 1
        \<or> int (MAX_REGS_SIZE le_build) < 105 + uint (nregs example_irep))"
      by (simp add: example_vm_def le_build_def example_irep_def)
    from push_callinfo_result [THEN conjunct2, rule_format, OF pre, of 3 2]
    obtain vm' ci where
      p: "mrbc_push_callinfo le_build 10 example_irep example_vm 3 105 2 = Inr vm'"
      and c: "callinfo_tail vm' = ci # callinfo_tail example_vm"
      and f: "method_id ci = 3" "current_regs_ci ci = current_regs example_vm"
      and r: "int (current_regs vm') = max 0 (int (current_regs example_vm) + 105)"
      by blast
    from c have "callinfo_tail vm' = [ci]" by (simp add: example_vm_def)
    moreover from f have "current_regs_ci ci = 1" by (simp add: example_vm_def)
    moreover from r have "current_regs vm' = 106" by (simp add: example_vm_def)
    ultimately show ?thesis using p f(1) by blast
  qed
  ultimately show ?thesis by blast
qed

text \<open>
  C6. Pop after push is the identity on the execution fields of the VM: after a
  successful \<^verbatim>\<open>mrbc_push_callinfo\<close>, \<^verbatim>\<open>mrbc_pop_callinfo\<close> returns, and restores
  \<^verbatim>\<open>pc_irep\<close>, \<^verbatim>\<open>inst\<close>, \<^verbatim>\<open>current_regs\<close> and \<^verbatim>\<open>target_class\<close> to their values
  before the push, and the chain to its previous head.
\<close>

theorem pop_after_push:
  assumes "mrbc_push_callinfo b max_depth callee vm mid roff nargs = Inr vm'"
  shows "\<exists>vm''. mrbc_pop_callinfo vm' = Some vm''
           \<and> pc_irep vm'' = pc_irep vm \<and> inst vm'' = inst vm
           \<and> current_regs vm'' = current_regs vm
           \<and> target_class vm'' = target_class vm
           \<and> callinfo_tail vm'' = callinfo_tail vm"
  using assms
  by (auto simp add: mrbc_push_callinfo_def mrbc_pop_callinfo_def Let_def split: if_splits)

theorem pop_after_push_witness:
  "mrbc_push_callinfo le_build 10 example_irep example_vm 3 3 2 = Inr (pushed_vm 3 2)
   \<and> current_regs (pushed_vm 3 2) = 4 \<and> current_regs example_vm = 1
   \<and> (\<exists>vm''. mrbc_pop_callinfo (pushed_vm 3 2) = Some vm''
         \<and> pc_irep vm'' = pc_irep example_vm \<and> inst vm'' = inst example_vm
         \<and> current_regs vm'' = current_regs example_vm
         \<and> target_class vm'' = target_class example_vm
         \<and> callinfo_tail vm'' = callinfo_tail example_vm)"
  using pop_after_push [OF example_push] example_push
  by (simp add: pushed_vm_def example_vm_def)

text \<open>
  C8. For every VM, \<^verbatim>\<open>mrbc_get_callee_name\<close> returns the name bound to the method id
  stored in the head call-info frame when the chain is not empty, and the synthetic
  name \<open>(toplevel)\<close> when it is empty.
\<close>

theorem callee_name:
  "(callinfo_tail vm = [] \<longrightarrow> mrbc_get_callee_name names vm = ''(toplevel)'')
   \<and> (\<forall>ci prev. callinfo_tail vm = ci # prev
         \<longrightarrow> mrbc_get_callee_name names vm = names (method_id ci))"
  by (simp add: mrbc_get_callee_name_def)

theorem callee_name_witness:
  "callinfo_tail example_vm = []
   \<and> mrbc_get_callee_name example_names example_vm = ''(toplevel)''
   \<and> callinfo_tail (pushed_vm 3 2) = [example_frame 3 2]
   \<and> mrbc_get_callee_name example_names (pushed_vm 3 2) = ''each''"
proof -
  have a: "callinfo_tail example_vm = []"
    by (simp add: example_vm_def)
  have b: "callinfo_tail (pushed_vm 3 2) = [example_frame 3 2]"
    by (simp add: pushed_vm_def)
  from a callee_name [of example_vm example_names]
  have "mrbc_get_callee_name example_names example_vm = ''(toplevel)''" by blast
  moreover from b callee_name [of "pushed_vm 3 2" example_names]
  have "mrbc_get_callee_name example_names (pushed_vm 3 2)
          = example_names (method_id (example_frame 3 2))" by blast
  then have "mrbc_get_callee_name example_names (pushed_vm 3 2) = ''each''"
    by (simp add: example_frame_def example_names_def)
  ultimately show ?thesis using a b by blast
qed

text \<open>
  C9. The frame stores \<^verbatim>\<open>reg_offset\<close> and \<^verbatim>\<open>n_args\<close> in 8-bit fields although
  \<^verbatim>\<open>mrbc_push_callinfo\<close> receives them as \<^verbatim>\<open>int\<close>: after every successful push the
  window offset and the argument count recorded in the new head frame are the
  arguments reduced modulo 256, so a value above 255 is truncated in the frame and
  the push still succeeds.
\<close>

theorem callinfo_fields_mod_256:
  assumes "mrbc_push_callinfo b max_depth callee vm mid roff nargs = Inr vm'"
  shows "\<exists>ci. callinfo_tail vm' = ci # callinfo_tail vm
           \<and> uint (reg_offset ci) = roff mod 256
           \<and> uint (n_args ci) = nargs mod 256"
  using assms
  by (auto simp add: mrbc_push_callinfo_def Let_def uint_word_of_int split: if_splits)

theorem callinfo_fields_mod_256_witness:
  "mrbc_push_callinfo wide_build 10 example_irep example_vm 3 300 257 = Inr (pushed_vm 300 257)
   \<and> (\<exists>ci. callinfo_tail (pushed_vm 300 257) = [ci]
         \<and> uint (reg_offset ci) = 44 \<and> uint (n_args ci) = 1)"
  using callinfo_fields_mod_256 [OF example_push_wide] example_push_wide
  by (simp add: example_vm_def)

end
